theory Spec2Isabelle
  imports Main
begin

section \<open>Bytes, errors and the byte source\<close>

text \<open>
  Go's \<^verbatim>\<open>[]byte\<close> and \<^verbatim>\<open>string\<close> are byte sequences; an Isabelle \<^typ>\<open>char\<close> is one
  byte, so both are \<^typ>\<open>string\<close>.
\<close>

type_synonym bytes = string

text \<open>
  Go's \<^verbatim>\<open>error\<close> values that reach a callback. \<open>EOF\<close> is \<^verbatim>\<open>io.EOF\<close>; \<open>ErrLib\<close> is an error
  made by a library outside the repository (the transport, \<^verbatim>\<open>encoding/json\<close>, the body
  reader); the others are the errors the repository builds with \<^verbatim>\<open>errors.New\<close> and
  \<^verbatim>\<open>fmt.Errorf\<close>, with the values formatted into the message kept as arguments:
  \<^item> \<open>ErrNew m\<close>: \<^verbatim>\<open>errors.New(m)\<close>;
  \<^item> \<open>ErrNon200ReadBody code e\<close>: \<^verbatim>\<open>fmt.Errorf("non-200: %d, read body failed: %w", code, e)\<close>;
  \<^item> \<open>ErrNon200Body code b\<close>: \<^verbatim>\<open>fmt.Errorf("non-200: %d, body: %s", code, string(b))\<close>;
  \<^item> \<open>ErrReadFailed e\<close>: \<^verbatim>\<open>fmt.Errorf("read failed: %w", e)\<close>;
  \<^item> \<open>ErrParseJSON e\<close>: \<^verbatim>\<open>fmt.Errorf("failed to parse JSON: %w", e)\<close>.
\<close>

datatype goerror =
    EOF
  | ErrLib string
  | ErrNew string
  | ErrNon200ReadBody int goerror
  | ErrNon200Body int bytes
  | ErrReadFailed goerror
  | ErrParseJSON goerror

text \<open>
  \<^verbatim>\<open>resp.Body\<close>: the bytes the source still delivers, and the error its \<^verbatim>\<open>Read\<close> returns
  once they are used up (\<open>EOF\<close> for a body that ends cleanly, anything else for an I/O
  failure). Both \<^verbatim>\<open>bufio.Reader\<close> and \<^verbatim>\<open>io.ReadAll\<close> hand out every byte that arrived
  before they report that error.
\<close>

record Body =
  pending :: bytes
  fault :: goerror

record Response =
  StatusCode :: int
  RespBody :: Body

definition StatusOK :: int where
  "StatusOK = 200"

definition newline :: char where
  "newline = CHR 0x0A"

text \<open>
  \<^verbatim>\<open>reader.ReadBytes('\n')\<close>: the bytes up to and including the first newline; when the
  source ends before a newline, the bytes read so far together with the source's error.
\<close>

definition ReadBytes :: "Body \<Rightarrow> bytes \<times> goerror option \<times> Body" where
  "ReadBytes r =
     (if newline \<in> set (pending r)
      then (takeWhile (\<lambda>c. c \<noteq> newline) (pending r) @ [newline], None,
            r\<lparr>pending := tl (dropWhile (\<lambda>c. c \<noteq> newline) (pending r))\<rparr>)
      else (pending r, Some (fault r), r\<lparr>pending := []\<rparr>))"

text \<open>\<^verbatim>\<open>io.ReadAll(resp.Body)\<close>: all bytes, and no error exactly when the source ends in EOF.\<close>

definition ReadAll :: "Body \<Rightarrow> bytes \<times> goerror option" where
  "ReadAll r = (pending r, if fault r = EOF then None else Some (fault r))"

subsection \<open>\<^verbatim>\<open>bytes.TrimSpace\<close> and \<^verbatim>\<open>bytes.HasPrefix\<close>\<close>

text \<open>The six bytes of the library's \<^verbatim>\<open>asciiSpace\<close> table: tab, LF, VT, FF, CR, space.\<close>

definition asciiSpace :: "char \<Rightarrow> bool" where
  "asciiSpace c \<longleftrightarrow> c \<in> {CHR 0x09, CHR 0x0A, CHR 0x0B, CHR 0x0C, CHR 0x0D, CHR 0x20}"

definition RuneSelf :: nat where
  "RuneSelf = 0x80"

text \<open>
  \<^verbatim>\<open>bytes.TrimSpace\<close> scans ASCII white space from the left, then from the right; as soon
  as either scan meets a byte \<open>\<ge> RuneSelf\<close> it hands the slice it has reached to
  \<^verbatim>\<open>TrimFunc(_, unicode.IsSpace)\<close>. That Unicode-aware trimming is the parameter \<open>uni\<close>.
\<close>

definition TrimSpace :: "(bytes \<Rightarrow> bytes) \<Rightarrow> bytes \<Rightarrow> bytes" where
  "TrimSpace uni s =
     (let s1 = dropWhile asciiSpace s in
      if s1 = [] then []
      else if RuneSelf \<le> of_char (hd s1) then uni s1
      else let s2 = rev (dropWhile asciiSpace (rev s1)) in
           if RuneSelf \<le> of_char (last s2) then uni s2 else s2)"

definition HasPrefix :: "bytes \<Rightarrow> bytes \<Rightarrow> bool" where
  "HasPrefix s p \<longleftrightarrow> length p \<le> length s \<and> take (length p) s = p"

section \<open>The callback contract\<close>

text \<open>
  \<^verbatim>\<open>llmstreamer.StreamCallbacks\<close> has three function-valued fields, each of which may be
  nil. What a supplied function does belongs to the caller; the decoder only decides
  whether and with which argument it is called. A field is therefore \<open>True\<close> when the
  slot holds a function and \<open>False\<close> when it is nil, and every call is recorded, in
  order, in a list of effects. The argument \<^verbatim>\<open>cb *StreamCallbacks\<close> is a pointer:
  \<open>None\<close> is the nil pointer.
\<close>

record StreamCallbacks =
  OnContent :: bool
  OnFinish :: bool
  OnError :: bool

record Client =
  Timeout :: int

record 'c Request =
  Ctx :: 'c
  Method :: string
  URL :: string
  Header :: "(string \<times> string) list"
  ReqBody :: bytes

datatype 'c effect =
    CallOnContent string
  | CallOnFinish string
  | CallOnError goerror
  | HttpDo "'c Request"
  | BodyClose

text \<open>A Go function either returns (a value) or panics.\<close>

datatype 'a outcome = Returns 'a | Panics

text \<open>
  The unguarded calls \<^verbatim>\<open>cb.OnFinish(m)\<close> and \<^verbatim>\<open>cb.OnError(e)\<close>: dereferencing a nil \<open>cb\<close>
  and calling a nil function value both panic.
\<close>

definition call_OnFinish ::
  "StreamCallbacks option \<Rightarrow> string \<Rightarrow> 'c effect list \<Rightarrow> 'c effect list \<times> unit outcome" where
  "call_OnFinish cb m tr =
     (case cb of
        None \<Rightarrow> (tr, Panics)
      | Some c \<Rightarrow> if OnFinish c then (tr @ [CallOnFinish m], Returns ()) else (tr, Panics))"

definition call_OnError ::
  "StreamCallbacks option \<Rightarrow> goerror \<Rightarrow> 'c effect list \<Rightarrow> 'c effect list \<times> unit outcome" where
  "call_OnError cb e tr =
     (case cb of
        None \<Rightarrow> (tr, Panics)
      | Some c \<Rightarrow> if OnError c then (tr @ [CallOnError e], Returns ()) else (tr, Panics))"

text \<open>The guards \<^verbatim>\<open>cb != nil && cb.OnX != nil\<close>.\<close>

definition has_OnContent :: "StreamCallbacks option \<Rightarrow> bool" where
  "has_OnContent cb = (case cb of None \<Rightarrow> False | Some c \<Rightarrow> OnContent c)"

definition has_OnFinish :: "StreamCallbacks option \<Rightarrow> bool" where
  "has_OnFinish cb = (case cb of None \<Rightarrow> False | Some c \<Rightarrow> OnFinish c)"

definition has_OnError :: "StreamCallbacks option \<Rightarrow> bool" where
  "has_OnError cb = (case cb of None \<Rightarrow> False | Some c \<Rightarrow> OnError c)"

text \<open>What one pass through the body of the read loop decides.\<close>

datatype 'c loop_step =
    Continue string "'c effect list"
  | Stop "'c effect list \<times> unit outcome"

section \<open>Package openai\<close>

record OA_Delta =
  Role :: string
  Content :: string

text \<open>
  \<^verbatim>\<open>Choice.Logprobs\<close> (an \<^verbatim>\<open>interface{}\<close>) is never read by the package and is left out;
  \<^verbatim>\<open>FinishReason *string\<close> is \<open>None\<close> when nil.
\<close>

record OA_Choice =
  Index :: int
  Delta :: OA_Delta
  FinishReason :: "string option"

record OA_StreamEvent =
  ID :: string
  Object :: string
  Created :: int
  Model :: string
  ServiceTier :: string
  SystemFingerprint :: string
  Choices :: "OA_Choice list"
  Obfuscation :: string

text \<open>
  The body of the \<^verbatim>\<open>for\<close> loop of \<^verbatim>\<open>openai.processStream\<close> after a line has been read
  without error (lines 131 to 160). \<open>unmarshal\<close> is \<^verbatim>\<open>json.Unmarshal\<close> into a fresh
  \<^verbatim>\<open>StreamEvent\<close>.
\<close>

definition oa_handleLine ::
  "(bytes \<Rightarrow> bytes) \<Rightarrow> (bytes \<Rightarrow> goerror + OA_StreamEvent) \<Rightarrow> StreamCallbacks option \<Rightarrow>
     bytes \<Rightarrow> string \<Rightarrow> 'c effect list \<Rightarrow> 'c loop_step" where
  "oa_handleLine uni unmarshal cb line0 finalMessage tr =
     (let line = TrimSpace uni line0 in
      if length line = 0 then Continue finalMessage tr
      else if HasPrefix line ''data: '' then
        (let data = drop (length ''data: '') line in
         if data = ''[DONE]'' then Stop (call_OnFinish cb finalMessage tr)
         else
           (case unmarshal data of
              Inl err \<Rightarrow>
                (case call_OnError cb (ErrParseJSON err) tr of
                   (tr', Returns u) \<Rightarrow> Continue finalMessage tr'
                 | (tr', Panics) \<Rightarrow> Stop (tr', Panics))
            | Inr ev \<Rightarrow>
                if length (Choices ev) > 0 then
                  (let content = Content (Delta (Choices ev ! 0)) in
                   if content \<noteq> [] then
                     Continue (finalMessage @ content)
                       (if has_OnContent cb then tr @ [CallOnContent content] else tr)
                   else Continue finalMessage tr)
                else Continue finalMessage tr))
      else Continue finalMessage tr)"

text \<open>The \<^verbatim>\<open>for\<close> loop of \<^verbatim>\<open>openai.processStream\<close> (lines 120 to 161).\<close>

function oa_loop ::
  "(bytes \<Rightarrow> bytes) \<Rightarrow> (bytes \<Rightarrow> goerror + OA_StreamEvent) \<Rightarrow> StreamCallbacks option \<Rightarrow>
     Body \<Rightarrow> string \<Rightarrow> 'c effect list \<Rightarrow> 'c effect list \<times> unit outcome" where
  "oa_loop uni unmarshal cb reader finalMessage tr =
     (case ReadBytes reader of
        (line, Some err, reader') \<Rightarrow>
          if err = EOF then call_OnFinish cb finalMessage tr
          else call_OnError cb (ErrReadFailed err) tr
      | (line, None, reader') \<Rightarrow>
          (case oa_handleLine uni unmarshal cb line finalMessage tr of
             Continue finalMessage' tr' \<Rightarrow> oa_loop uni unmarshal cb reader' finalMessage' tr'
           | Stop res \<Rightarrow> res))"
  by auto

termination oa_loop
  apply (relation "measure (\<lambda>(uni, unmarshal, cb, reader, finalMessage, tr). length (pending reader))")
   apply simp
  subgoal for uni unmarshal cb reader finalMessage tr line rest reader'
    using length_dropWhile_le [of "\<lambda>c. c \<noteq> newline" "pending reader"]
    by (cases "dropWhile (\<lambda>c. c \<noteq> newline) (pending reader)")
       (auto simp: ReadBytes_def split: if_splits)
  done

text \<open>\<^verbatim>\<open>openai.processStream\<close> (lines 106 to 162).\<close>

definition oa_processStream ::
  "(bytes \<Rightarrow> bytes) \<Rightarrow> (bytes \<Rightarrow> goerror + OA_StreamEvent) \<Rightarrow> Response \<Rightarrow>
     StreamCallbacks option \<Rightarrow> 'c effect list \<Rightarrow> 'c effect list \<times> unit outcome" where
  "oa_processStream uni unmarshal resp cb tr =
     (if StatusCode resp \<noteq> StatusOK then
        (case ReadAll (RespBody resp) of
           (b, Some err) \<Rightarrow> call_OnError cb (ErrNon200ReadBody (StatusCode resp) err) tr
         | (b, None) \<Rightarrow> call_OnError cb (ErrNon200Body (StatusCode resp) b) tr)
      else oa_loop uni unmarshal cb (RespBody resp) [] tr)"

section \<open>Package anthropic\<close>

text \<open>The event kinds of \<^verbatim>\<open>type Type string\<close>.\<close>

definition Type_Start :: string where
  "Type_Start = ''message_start''"

definition Type_ContentStart :: string where
  "Type_ContentStart = ''content_block_start''"

definition Type_Delta :: string where
  "Type_Delta = ''content_block_delta''"

definition Type_Stop :: string where
  "Type_Stop = ''content_block_stop''"

definition Type_Finish :: string where
  "Type_Finish = ''message_stop''"

record DeltaData =
  DeltaType :: string
  Text :: string

text \<open>\<^verbatim>\<open>StreamEvent.Delta\<close> is a pointer: \<open>None\<close> is nil.\<close>

record AN_StreamEvent =
  Type :: string
  EvIndex :: int
  EvDelta :: "DeltaData option"

text \<open>
  The body of the \<^verbatim>\<open>for\<close> loop of \<^verbatim>\<open>anthropic.processStream\<close> after a line has been
  read without error (lines 133 to 164).
\<close>

definition an_handleLine ::
  "(bytes \<Rightarrow> bytes) \<Rightarrow> (bytes \<Rightarrow> goerror + AN_StreamEvent) \<Rightarrow> StreamCallbacks option \<Rightarrow>
     bytes \<Rightarrow> string \<Rightarrow> 'c effect list \<Rightarrow> 'c loop_step" where
  "an_handleLine uni unmarshal cb line0 finalMessage tr =
     (let line = TrimSpace uni line0 in
      if length line = 0 then Continue finalMessage tr
      else if HasPrefix line ''data: '' then
        (let data = drop (length ''data: '') line in
         case unmarshal data of
           Inl err \<Rightarrow>
             (case call_OnError cb (ErrParseJSON err) tr of
                (tr', Returns u) \<Rightarrow> Continue finalMessage tr'
              | (tr', Panics) \<Rightarrow> Stop (tr', Panics))
         | Inr ev \<Rightarrow>
             if Type ev = Type_Delta then
               (case EvDelta ev of
                  None \<Rightarrow> Continue finalMessage tr
                | Some d \<Rightarrow>
                    if Text d \<noteq> [] then
                      (if has_OnContent cb
                       then Continue (finalMessage @ Text d) (tr @ [CallOnContent (Text d)])
                       else Continue finalMessage tr)
                    else Continue finalMessage tr)
             else if Type ev = Type_Finish then
               (if has_OnFinish cb
                then Stop (tr @ [CallOnFinish finalMessage], Returns ())
                else Continue finalMessage tr)
             else Continue finalMessage tr)
      else Continue finalMessage tr)"

text \<open>The \<^verbatim>\<open>for\<close> loop of \<^verbatim>\<open>anthropic.processStream\<close> (lines 122 to 165).\<close>

function an_loop ::
  "(bytes \<Rightarrow> bytes) \<Rightarrow> (bytes \<Rightarrow> goerror + AN_StreamEvent) \<Rightarrow> StreamCallbacks option \<Rightarrow>
     Body \<Rightarrow> string \<Rightarrow> 'c effect list \<Rightarrow> 'c effect list \<times> unit outcome" where
  "an_loop uni unmarshal cb reader finalMessage tr =
     (case ReadBytes reader of
        (line, Some err, reader') \<Rightarrow>
          if err = EOF then call_OnFinish cb finalMessage tr
          else call_OnError cb (ErrReadFailed err) tr
      | (line, None, reader') \<Rightarrow>
          (case an_handleLine uni unmarshal cb line finalMessage tr of
             Continue finalMessage' tr' \<Rightarrow> an_loop uni unmarshal cb reader' finalMessage' tr'
           | Stop res \<Rightarrow> res))"
  by auto

termination an_loop
  apply (relation "measure (\<lambda>(uni, unmarshal, cb, reader, finalMessage, tr). length (pending reader))")
   apply simp
  subgoal for uni unmarshal cb reader finalMessage tr line rest reader'
    using length_dropWhile_le [of "\<lambda>c. c \<noteq> newline" "pending reader"]
    by (cases "dropWhile (\<lambda>c. c \<noteq> newline) (pending reader)")
       (auto simp: ReadBytes_def split: if_splits)
  done

text \<open>\<^verbatim>\<open>anthropic.processStream\<close> (lines 107 to 166).\<close>

definition an_processStream ::
  "(bytes \<Rightarrow> bytes) \<Rightarrow> (bytes \<Rightarrow> goerror + AN_StreamEvent) \<Rightarrow> Response \<Rightarrow>
     StreamCallbacks option \<Rightarrow> 'c effect list \<Rightarrow> 'c effect list \<times> unit outcome" where
  "an_processStream uni unmarshal resp cb tr =
     (if StatusCode resp \<noteq> StatusOK then
        (case ReadAll (RespBody resp) of
           (b, Some err) \<Rightarrow> call_OnError cb (ErrNon200ReadBody (StatusCode resp) err) tr
         | (b, None) \<Rightarrow> call_OnError cb (ErrNon200Body (StatusCode resp) b) tr)
      else an_loop uni unmarshal cb (RespBody resp) [] tr)"

section \<open>The dispatch drivers\<close>

text \<open>
  \<^verbatim>\<open>RequestBody\<close> is the same struct in both packages. The element type of
  \<^verbatim>\<open>[]llmstreamer.Message\<close> is declared outside the files at hand and is the type
  parameter \<open>'m\<close>; the \<^verbatim>\<open>context.Context\<close> is the type parameter \<open>'c\<close>.
\<close>

record 'm RequestBody =
  ReqModel :: string
  Messages :: "'m list"
  MaxTokens :: int
  Stream :: bool

text \<open>
  The collaborators outside the repository: \<^verbatim>\<open>json.Marshal\<close>,
  \<^verbatim>\<open>http.NewRequestWithContext\<close> and \<^verbatim>\<open>client.Do\<close> (the network exchange).
\<close>

record ('c, 'm) world =
  json_Marshal :: "'m RequestBody \<Rightarrow> goerror + bytes"
  NewRequestWithContext :: "'c \<Rightarrow> string \<Rightarrow> string \<Rightarrow> bytes \<Rightarrow> goerror + 'c Request"
  client_Do :: "Client \<Rightarrow> 'c Request \<Rightarrow> goerror + Response"
  CanonicalMIMEHeaderKey :: "string \<Rightarrow> string"

text \<open>
  \<^verbatim>\<open>req.Header.Set(k, v)\<close>: the value is stored under the canonical form of the key,
  which \<^verbatim>\<open>textproto.CanonicalMIMEHeaderKey\<close> (the parameter \<open>canon\<close>) computes, and
  replaces what was stored under it.
\<close>

definition Header_Set ::
  "(string \<Rightarrow> string) \<Rightarrow> string \<Rightarrow> string \<Rightarrow> 'c Request \<Rightarrow> 'c Request" where
  "Header_Set canon k v req =
     req\<lparr>Header := (canon k, v) # filter (\<lambda>kv. fst kv \<noteq> canon k) (Header req)\<rparr>"

definition MethodPost :: string where
  "MethodPost = ''POST''"

subsection \<open>openai\<close>

record OpenAIStreamer =
  oa_ApiKey :: string
  oa_Model :: string

definition ModelGPT4o :: string where
  "ModelGPT4o = ''gpt-4o''"

definition oa_url :: string where
  "oa_url = ''https://api.openai.com/v1/chat/completions''"

text \<open>\<^verbatim>\<open>openai.prepareRequest\<close>: the triple (client, request, error), nil as \<open>None\<close>.\<close>

definition oa_prepareRequest ::
  "('c, 'm) world \<Rightarrow> 'c \<Rightarrow> 'm RequestBody \<Rightarrow> string \<Rightarrow>
     Client option \<times> 'c Request option \<times> goerror option" where
  "oa_prepareRequest w ctx payload apiKey =
     (case json_Marshal w payload of
        Inl err \<Rightarrow> (None, None, Some err)
      | Inr data \<Rightarrow>
          (case NewRequestWithContext w ctx MethodPost oa_url data of
             Inl err \<Rightarrow> (None, None, Some err)
           | Inr req \<Rightarrow>
               (Some \<lparr>Timeout = 0\<rparr>,
                Some (Header_Set (CanonicalMIMEHeaderKey w) ''Content-Type'' ''application/json''
                       (Header_Set (CanonicalMIMEHeaderKey w) ''Authorization''
                          (''Bearer '' @ apiKey) req)),
                None)))"

text \<open>
  \<^verbatim>\<open>openai.streamOpenAI\<close>. The deferred \<^verbatim>\<open>resp.Body.Close()\<close> runs when
  \<^verbatim>\<open>processStream\<close> returns and also when it panics; the panic then goes on to the caller.
\<close>

definition streamOpenAI ::
  "(bytes \<Rightarrow> bytes) \<Rightarrow> (bytes \<Rightarrow> goerror + OA_StreamEvent) \<Rightarrow> ('c, 'm) world \<Rightarrow> 'c \<Rightarrow>
     'm RequestBody \<Rightarrow> string \<Rightarrow> StreamCallbacks option \<Rightarrow>
     'c effect list \<times> goerror option outcome" where
  "streamOpenAI uni unmarshal w ctx payload apiKey cb =
     (case oa_prepareRequest w ctx payload apiKey of
        (client, req, Some err) \<Rightarrow> ([], Returns (Some err))
      | (None, req, None) \<Rightarrow> ([], Returns (Some (ErrNew ''invalid client or request'')))
      | (Some c, None, None) \<Rightarrow> ([], Returns (Some (ErrNew ''invalid client or request'')))
      | (Some c, Some r, None) \<Rightarrow>
          (case client_Do w c r of
             Inl err \<Rightarrow> ([HttpDo r], Returns (Some err))
           | Inr resp \<Rightarrow>
               (case oa_processStream uni unmarshal resp cb [HttpDo r] of
                  (tr, Returns u) \<Rightarrow> (tr @ [BodyClose], Returns None)
                | (tr, Panics) \<Rightarrow> (tr @ [BodyClose], Panics))))"

text \<open>
  \<^verbatim>\<open>(*OpenAIStreamer).StreamChat\<close>, for a receiver that is not nil (as \<^verbatim>\<open>New\<close> returns it).
\<close>

definition oa_StreamChat ::
  "(bytes \<Rightarrow> bytes) \<Rightarrow> (bytes \<Rightarrow> goerror + OA_StreamEvent) \<Rightarrow> ('c, 'm) world \<Rightarrow>
     OpenAIStreamer \<Rightarrow> 'c \<Rightarrow> 'm list \<Rightarrow> StreamCallbacks option \<Rightarrow>
     'c effect list \<times> unit outcome" where
  "oa_StreamChat uni unmarshal w s ctx messages cb =
     (if oa_ApiKey s = [] then
        (if has_OnError cb then [CallOnError (ErrNew ''invalid apiKey'')] else [], Returns ())
      else
        (let model = (if oa_Model s = [] then ModelGPT4o else oa_Model s);
             payload = \<lparr>ReqModel = model, Messages = messages, MaxTokens = 1024, Stream = True\<rparr>
         in case streamOpenAI uni unmarshal w ctx payload (oa_ApiKey s) cb of
              (tr, Returns (Some err)) \<Rightarrow>
                (if has_OnError cb then tr @ [CallOnError err] else tr, Returns ())
            | (tr, Returns None) \<Rightarrow> (tr, Returns ())
            | (tr, Panics) \<Rightarrow> (tr, Panics)))"

subsection \<open>anthropic\<close>

record AnthropicStreamer =
  an_ApiKey :: string
  an_Model :: string

definition ModelClaude3Opus :: string where
  "ModelClaude3Opus = ''claude-3-opus-20240229''"

definition an_url :: string where
  "an_url = ''https://api.anthropic.com/v1/messages''"

text \<open>\<^verbatim>\<open>anthropic.prepareRequest\<close>.\<close>

definition an_prepareRequest ::
  "('c, 'm) world \<Rightarrow> 'c \<Rightarrow> 'm RequestBody \<Rightarrow> string \<Rightarrow>
     Client option \<times> 'c Request option \<times> goerror option" where
  "an_prepareRequest w ctx payload apiKey =
     (case json_Marshal w payload of
        Inl err \<Rightarrow> (None, None, Some err)
      | Inr data \<Rightarrow>
          (case NewRequestWithContext w ctx MethodPost an_url data of
             Inl err \<Rightarrow> (None, None, Some err)
           | Inr req \<Rightarrow>
               (Some \<lparr>Timeout = 0\<rparr>,
                Some (Header_Set (CanonicalMIMEHeaderKey w) ''anthropic-version'' ''2023-06-01''
                       (Header_Set (CanonicalMIMEHeaderKey w) ''Content-Type''
                          ''application/json''
                         (Header_Set (CanonicalMIMEHeaderKey w) ''x-api-key'' apiKey req))),
                None)))"

text \<open>\<^verbatim>\<open>anthropic.streamAnthropic\<close>.\<close>

definition streamAnthropic ::
  "(bytes \<Rightarrow> bytes) \<Rightarrow> (bytes \<Rightarrow> goerror + AN_StreamEvent) \<Rightarrow> ('c, 'm) world \<Rightarrow> 'c \<Rightarrow>
     'm RequestBody \<Rightarrow> string \<Rightarrow> StreamCallbacks option \<Rightarrow>
     'c effect list \<times> goerror option outcome" where
  "streamAnthropic uni unmarshal w ctx payload apiKey cb =
     (case an_prepareRequest w ctx payload apiKey of
        (client, req, Some err) \<Rightarrow> ([], Returns (Some err))
      | (None, req, None) \<Rightarrow> ([], Returns (Some (ErrNew ''invalid client or request'')))
      | (Some c, None, None) \<Rightarrow> ([], Returns (Some (ErrNew ''invalid client or request'')))
      | (Some c, Some r, None) \<Rightarrow>
          (case client_Do w c r of
             Inl err \<Rightarrow> ([HttpDo r], Returns (Some err))
           | Inr resp \<Rightarrow>
               (case an_processStream uni unmarshal resp cb [HttpDo r] of
                  (tr, Returns u) \<Rightarrow> (tr @ [BodyClose], Returns None)
                | (tr, Panics) \<Rightarrow> (tr @ [BodyClose], Panics))))"

text \<open>\<^verbatim>\<open>(*AnthropicStreamer).StreamChat\<close>, for a receiver that is not nil.\<close>

definition an_StreamChat ::
  "(bytes \<Rightarrow> bytes) \<Rightarrow> (bytes \<Rightarrow> goerror + AN_StreamEvent) \<Rightarrow> ('c, 'm) world \<Rightarrow>
     AnthropicStreamer \<Rightarrow> 'c \<Rightarrow> 'm list \<Rightarrow> StreamCallbacks option \<Rightarrow>
     'c effect list \<times> unit outcome" where
  "an_StreamChat uni unmarshal w s ctx messages cb =
     (if an_ApiKey s = [] then
        (if has_OnError cb then [CallOnError (ErrNew ''invalid apiKey'')] else [], Returns ())
      else
        (let model = (if an_Model s = [] then ModelClaude3Opus else an_Model s);
             payload = \<lparr>ReqModel = model, Messages = messages, MaxTokens = 1024, Stream = True\<rparr>
         in case streamAnthropic uni unmarshal w ctx payload (an_ApiKey s) cb of
              (tr, Returns (Some err)) \<Rightarrow>
                (if has_OnError cb then tr @ [CallOnError err] else tr, Returns ())
            | (tr, Returns None) \<Rightarrow> (tr, Returns ())
            | (tr, Panics) \<Rightarrow> (tr, Panics)))"

section \<open>Observing a run\<close>

text \<open>The arguments of the \<^verbatim>\<open>OnContent\<close> calls of a trace, in the order of the calls.\<close>

fun contents :: "'c effect list \<Rightarrow> string list" where
  "contents [] = []"
| "contents (CallOnContent s # es) = s # contents es"
| "contents (e # es) = contents es"


text \<open>
  The lines \<open>ReadBytes\<close> hands out without error, in order: every newline-terminated
  line of the bytes (\<open>cur\<close> holds the bytes of the line being read).
\<close>

fun complete_lines :: "bytes \<Rightarrow> bytes \<Rightarrow> bytes list" where
  "complete_lines cur [] = []"
| "complete_lines cur (c # cs) =
     (if c = newline then (cur @ [c]) # complete_lines [] cs
      else complete_lines (cur @ [c]) cs)"

text \<open>
  The read loop over the lines already split: \<open>h\<close> is the loop body, \<open>flt\<close> the error
  the source reports after its last complete line.
\<close>

fun run_lines ::
  "(bytes \<Rightarrow> string \<Rightarrow> 'c effect list \<Rightarrow> 'c loop_step) \<Rightarrow> StreamCallbacks option \<Rightarrow>
     bytes list \<Rightarrow> goerror \<Rightarrow> string \<Rightarrow> 'c effect list \<Rightarrow> 'c effect list \<times> unit outcome" where
  "run_lines h cb [] flt acc tr =
     (if flt = EOF then call_OnFinish cb acc tr else call_OnError cb (ErrReadFailed flt) tr)"
| "run_lines h cb (l # ls) flt acc tr =
     (case h l acc tr of
        Continue acc' tr' \<Rightarrow> run_lines h cb ls flt acc' tr'
      | Stop res \<Rightarrow> res)"


section \<open>Kinds of lines on the wire\<close>

text \<open>
  The payload of a line as both decoders extract it: the trimmed line without its
  \<^verbatim>\<open>data: \<close> prefix, and \<open>None\<close> for a line that is blank or has no such prefix.
\<close>

definition payload_of :: "(bytes \<Rightarrow> bytes) \<Rightarrow> bytes \<Rightarrow> bytes option" where
  "payload_of uni l =
     (let line = TrimSpace uni l in
      if HasPrefix line ''data: '' then Some (drop (length ''data: '') line) else None)"

subsection \<open>Shape A (openai)\<close>

text \<open>The terminator line \<^verbatim>\<open>data: [DONE]\<close>.\<close>

definition oa_is_done :: "(bytes \<Rightarrow> bytes) \<Rightarrow> bytes \<Rightarrow> bool" where
  "oa_is_done uni l \<longleftrightarrow> payload_of uni l = Some ''[DONE]''"

text \<open>A valid content-delta event whose first choice carries the non-empty text \<open>a\<close>.\<close>

definition oa_delta_line ::
  "(bytes \<Rightarrow> bytes) \<Rightarrow> (bytes \<Rightarrow> goerror + OA_StreamEvent) \<Rightarrow> bytes \<Rightarrow> string \<Rightarrow> bool" where
  "oa_delta_line uni u l a =
     (case payload_of uni l of
        None \<Rightarrow> False
      | Some p \<Rightarrow>
          p \<noteq> ''[DONE]'' \<and>
          (case u p of
             Inl e \<Rightarrow> False
           | Inr ev \<Rightarrow> Choices ev \<noteq> [] \<and> Content (Delta (Choices ev ! 0)) = a \<and> a \<noteq> []))"

text \<open>A \<^verbatim>\<open>data:\<close> line whose payload fails deserialization with error \<open>e\<close>.\<close>

definition oa_malformed_line ::
  "(bytes \<Rightarrow> bytes) \<Rightarrow> (bytes \<Rightarrow> goerror + OA_StreamEvent) \<Rightarrow> bytes \<Rightarrow> goerror \<Rightarrow> bool" where
  "oa_malformed_line uni u l e =
     (case payload_of uni l of
        None \<Rightarrow> False
      | Some p \<Rightarrow> p \<noteq> ''[DONE]'' \<and> u p = Inl e)"

text \<open>
  A line that carries nothing: blank, without the prefix, or a valid event with no
  choice or with empty text in its first choice.
\<close>

definition oa_silent ::
  "(bytes \<Rightarrow> bytes) \<Rightarrow> (bytes \<Rightarrow> goerror + OA_StreamEvent) \<Rightarrow> bytes \<Rightarrow> bool" where
  "oa_silent uni u l =
     (case payload_of uni l of
        None \<Rightarrow> True
      | Some p \<Rightarrow>
          p \<noteq> ''[DONE]'' \<and>
          (case u p of
             Inl e \<Rightarrow> False
           | Inr ev \<Rightarrow> Choices ev = [] \<or> Content (Delta (Choices ev ! 0)) = []))"

text \<open>A line of a well-formed stream: its payload, if it has one, is the sentinel or deserializes.\<close>

definition oa_parses ::
  "(bytes \<Rightarrow> bytes) \<Rightarrow> (bytes \<Rightarrow> goerror + OA_StreamEvent) \<Rightarrow> bytes \<Rightarrow> bool" where
  "oa_parses uni u l =
     (case payload_of uni l of
        None \<Rightarrow> True
      | Some p \<Rightarrow> p = ''[DONE]'' \<or> (case u p of Inl e \<Rightarrow> False | Inr ev \<Rightarrow> True))"

text \<open>An event cut down to its first choice.\<close>

definition first_choice_only :: "OA_StreamEvent \<Rightarrow> OA_StreamEvent" where
  "first_choice_only ev = ev\<lparr>Choices := take 1 (Choices ev)\<rparr>"

subsection \<open>Shape B (anthropic)\<close>

text \<open>The terminator: a valid event of type \<^verbatim>\<open>message_stop\<close>.\<close>

definition an_is_stop ::
  "(bytes \<Rightarrow> bytes) \<Rightarrow> (bytes \<Rightarrow> goerror + AN_StreamEvent) \<Rightarrow> bytes \<Rightarrow> bool" where
  "an_is_stop uni u l =
     (case payload_of uni l of
        None \<Rightarrow> False
      | Some p \<Rightarrow> (case u p of Inl e \<Rightarrow> False | Inr ev \<Rightarrow> Type ev = Type_Finish))"

definition an_delta_line ::
  "(bytes \<Rightarrow> bytes) \<Rightarrow> (bytes \<Rightarrow> goerror + AN_StreamEvent) \<Rightarrow> bytes \<Rightarrow> string \<Rightarrow> bool" where
  "an_delta_line uni u l a =
     (case payload_of uni l of
        None \<Rightarrow> False
      | Some p \<Rightarrow>
          (case u p of
             Inl e \<Rightarrow> False
           | Inr ev \<Rightarrow>
               Type ev = Type_Delta \<and>
               (case EvDelta ev of None \<Rightarrow> False | Some d \<Rightarrow> Text d = a \<and> a \<noteq> [])))"

definition an_malformed_line ::
  "(bytes \<Rightarrow> bytes) \<Rightarrow> (bytes \<Rightarrow> goerror + AN_StreamEvent) \<Rightarrow> bytes \<Rightarrow> goerror \<Rightarrow> bool" where
  "an_malformed_line uni u l e =
     (case payload_of uni l of
        None \<Rightarrow> False
      | Some p \<Rightarrow> u p = Inl e)"

text \<open>
  A line that carries nothing: blank, without the prefix, a content-delta event with no
  or empty text, or a valid event of a kind other than content-delta and message-stop.
\<close>

definition an_silent ::
  "(bytes \<Rightarrow> bytes) \<Rightarrow> (bytes \<Rightarrow> goerror + AN_StreamEvent) \<Rightarrow> bytes \<Rightarrow> bool" where
  "an_silent uni u l =
     (case payload_of uni l of
        None \<Rightarrow> True
      | Some p \<Rightarrow>
          (case u p of
             Inl e \<Rightarrow> False
           | Inr ev \<Rightarrow>
               if Type ev = Type_Delta
               then (case EvDelta ev of None \<Rightarrow> True | Some d \<Rightarrow> Text d = [])
               else Type ev \<noteq> Type_Finish))"


subsection \<open>What a line asks of the decoder\<close>

text \<open>
  The kinds of line that do not end a stream, after section 4.2 of the specification: a
  line that carries nothing, a content delta with its non-empty text, and a payload
  that fails to deserialize, with the decoder's error.
\<close>

datatype line_kind = Silent | Fragment string | Malformed goerror

fun is_malformed :: "line_kind \<Rightarrow> bool" where
  "is_malformed (Malformed e) = True"
| "is_malformed k = False"

definition oa_line_is ::
  "(bytes \<Rightarrow> bytes) \<Rightarrow> (bytes \<Rightarrow> goerror + OA_StreamEvent) \<Rightarrow> bytes \<Rightarrow> line_kind \<Rightarrow> bool" where
  "oa_line_is uni u l k =
     (case k of
        Silent \<Rightarrow> oa_silent uni u l
      | Fragment a \<Rightarrow> oa_delta_line uni u l a
      | Malformed e \<Rightarrow> oa_malformed_line uni u l e)"

definition an_line_is ::
  "(bytes \<Rightarrow> bytes) \<Rightarrow> (bytes \<Rightarrow> goerror + AN_StreamEvent) \<Rightarrow> bytes \<Rightarrow> line_kind \<Rightarrow> bool" where
  "an_line_is uni u l k =
     (case k of
        Silent \<Rightarrow> an_silent uni u l
      | Fragment a \<Rightarrow> an_delta_line uni u l a
      | Malformed e \<Rightarrow> an_malformed_line uni u l e)"

text \<open>The text fragments of a sequence of lines, in order.\<close>

fun texts_of :: "line_kind list \<Rightarrow> string list" where
  "texts_of [] = []"
| "texts_of (Fragment a # ks) = a # texts_of ks"
| "texts_of (k # ks) = texts_of ks"

text \<open>
  The calls the specification asks for, line by line: \<^verbatim>\<open>onContent\<close> with the fragment
  for a content delta (when the caller listens: \<open>deliver\<close>), \<^verbatim>\<open>onError\<close> with the parse
  failure for a malformed payload, nothing for a line that carries nothing.
\<close>

fun calls_of :: "bool \<Rightarrow> line_kind list \<Rightarrow> 'c effect list" where
  "calls_of deliver [] = []"
| "calls_of deliver (Silent # ks) = calls_of deliver ks"
| "calls_of deliver (Fragment a # ks) =
     (if deliver then CallOnContent a # calls_of deliver ks else calls_of deliver ks)"
| "calls_of deliver (Malformed e # ks) = CallOnError (ErrParseJSON e) # calls_of deliver ks"

section \<open>Concrete inputs\<close>

text \<open>
  Payloads as they appear on the wire, and what \<^verbatim>\<open>json.Unmarshal\<close> makes of them: the
  fields named in the payload are set, every other field keeps its zero value. The two
  sample decoders agree with \<^verbatim>\<open>encoding/json\<close> on the payloads named here (and on
  \<^verbatim>\<open>not-a-json\<close>, which it rejects); they are used on no other payload. All bytes of
  the concrete streams are ASCII, so \<open>TrimSpace\<close> never reaches its Unicode-aware
  parameter on them; the concrete runs pass \<open>id\<close> for it.
\<close>

definition oa_event :: "string list \<Rightarrow> OA_StreamEvent" where
  "oa_event cs =
     \<lparr>ID = [], Object = [], Created = 0, Model = [], ServiceTier = [], SystemFingerprint = [],
      Choices = map (\<lambda>c. \<lparr>Index = 0, Delta = \<lparr>Role = [], Content = c\<rparr>, FinishReason = None\<rparr>) cs,
      Obfuscation = []\<rparr>"

definition oa_payload_Hi :: bytes where
  "oa_payload_Hi = ''{\"choices\":[{\"delta\":{\"content\":\"Hi\"}}]}''"

definition oa_payload_there :: bytes where
  "oa_payload_there = ''{\"choices\":[{\"delta\":{\"content\":\" there\"}}]}''"

definition oa_payload_two :: bytes where
  "oa_payload_two = ''{\"choices\":[{\"delta\":{\"content\":\"A\"}},{\"delta\":{\"content\":\"B\"}}]}''"

definition oa_sample_unmarshal :: "bytes \<Rightarrow> goerror + OA_StreamEvent" where
  "oa_sample_unmarshal p =
     (if p = oa_payload_Hi then Inr (oa_event [''Hi''])
      else if p = oa_payload_there then Inr (oa_event ['' there''])
      else if p = oa_payload_two then Inr (oa_event [''A'', ''B''])
      else Inl (ErrLib ''invalid character''))"

definition an_payload_Hi :: bytes where
  "an_payload_Hi = ''{\"type\":\"content_block_delta\",\"delta\":{\"text\":\"Hi\"}}''"

definition an_payload_there :: bytes where
  "an_payload_there = ''{\"type\":\"content_block_delta\",\"delta\":{\"text\":\" there\"}}''"

definition an_payload_stop :: bytes where
  "an_payload_stop = ''{\"type\":\"message_stop\"}''"

definition an_sample_unmarshal :: "bytes \<Rightarrow> goerror + AN_StreamEvent" where
  "an_sample_unmarshal p =
     (if p = an_payload_Hi
      then Inr \<lparr>Type = Type_Delta, EvIndex = 0, EvDelta = Some \<lparr>DeltaType = [], Text = ''Hi''\<rparr>\<rparr>
      else if p = an_payload_there
      then Inr \<lparr>Type = Type_Delta, EvIndex = 0, EvDelta = Some \<lparr>DeltaType = [], Text = '' there''\<rparr>\<rparr>
      else if p = an_payload_stop
      then Inr \<lparr>Type = Type_Finish, EvIndex = 0, EvDelta = None\<rparr>
      else Inl (ErrLib ''invalid character''))"

text \<open>A line of the wire: prefix, payload, newline.\<close>

definition data_line :: "bytes \<Rightarrow> bytes" where
  "data_line p = ''data: '' @ p @ [newline]"

text \<open>Callback sets with all slots, and with one slot left nil.\<close>

definition cb_all :: "StreamCallbacks option" where
  "cb_all = Some \<lparr>OnContent = True, OnFinish = True, OnError = True\<rparr>"

definition cb_no_OnContent :: "StreamCallbacks option" where
  "cb_no_OnContent = Some \<lparr>OnContent = False, OnFinish = True, OnError = True\<rparr>"

definition cb_no_OnFinish :: "StreamCallbacks option" where
  "cb_no_OnFinish = Some \<lparr>OnContent = True, OnFinish = False, OnError = True\<rparr>"

definition cb_only_OnError :: "StreamCallbacks option" where
  "cb_only_OnError = Some \<lparr>OnContent = False, OnFinish = False, OnError = True\<rparr>"

text \<open>
  A world in which request construction succeeds and the server answers every request
  with the given response. The request body is what \<^verbatim>\<open>json.Marshal\<close> writes for a payload
  with a nil message slice, 1024 tokens and streaming on, as \<^verbatim>\<open>StreamChat\<close> builds it
  from \<^verbatim>\<open>messages = nil\<close>. The header keys the two packages set have the canonical
  forms given here (\<^verbatim>\<open>Authorization\<close> and \<^verbatim>\<open>Content-Type\<close> are canonical already).
\<close>

definition answering :: "Response \<Rightarrow> (unit, unit) world" where
  "answering resp =
     \<lparr>json_Marshal =
        (\<lambda>payload. Inr (''{\"model\":\"'' @ ReqModel payload
                         @ ''\",\"messages\":null,\"max_tokens\":1024,\"stream\":true}'')),
      NewRequestWithContext =
        (\<lambda>ctx m url body. Inr \<lparr>Ctx = ctx, Method = m, URL = url, Header = [], ReqBody = body\<rparr>),
      client_Do = (\<lambda>client req. Inr resp),
      CanonicalMIMEHeaderKey =
        (\<lambda>k. if k = ''x-api-key'' then ''X-Api-Key''
             else if k = ''anthropic-version'' then ''Anthropic-Version''
             else k)\<rparr>"

definition ok_response :: "bytes \<Rightarrow> Response" where
  "ok_response b = \<lparr>StatusCode = 200, RespBody = \<lparr>pending = b, fault = EOF\<rparr>\<rparr>"

text \<open>Whole streams.\<close>

definition oa_stream_Hi_done :: bytes where
  "oa_stream_Hi_done = data_line oa_payload_Hi @ data_line ''[DONE]''"


definition an_stream_with_bad :: bytes where
  "an_stream_with_bad =
     data_line an_payload_Hi @ data_line ''not-a-json'' @ data_line an_payload_there
     @ data_line an_payload_stop"

definition oa_stream_Hi_there :: bytes where
  "oa_stream_Hi_there = data_line oa_payload_Hi @ data_line oa_payload_there"

definition an_stream_Hi_there_stop :: bytes where
  "an_stream_Hi_there_stop =
     data_line an_payload_Hi @ data_line an_payload_there @ data_line an_payload_stop"

definition an_stream_Hi_there :: bytes where
  "an_stream_Hi_there = data_line an_payload_Hi @ data_line an_payload_there"

declare oa_loop.simps [simp del] an_loop.simps [simp del]

section \<open>Properties\<close>

subsection \<open>The read loop, line by line\<close>

lemma complete_lines_nl:
  "newline \<in> set bs \<Longrightarrow>
   complete_lines cur bs =
     (cur @ takeWhile (\<lambda>c. c \<noteq> newline) bs @ [newline])
       # complete_lines [] (tl (dropWhile (\<lambda>c. c \<noteq> newline) bs))"
  by (induction bs arbitrary: cur) auto

lemma complete_lines_none: "newline \<notin> set bs \<Longrightarrow> complete_lines cur bs = []"
  by (induction bs arbitrary: cur) auto

lemma oa_loop_run:
  "oa_loop uni u cb r acc tr =
     run_lines (oa_handleLine uni u cb) cb (complete_lines [] (pending r)) (fault r) acc tr"
proof (induction uni u cb r acc tr rule: oa_loop.induct)
  case (1 uni u cb r acc tr)
  show ?case
  proof (cases "newline \<in> set (pending r)")
    case False
    then show ?thesis
      by (subst oa_loop.simps) (simp add: ReadBytes_def complete_lines_none)
  next
    case True
    let ?line = "takeWhile (\<lambda>c. c \<noteq> newline) (pending r) @ [newline]"
    let ?r' = "r\<lparr>pending := tl (dropWhile (\<lambda>c. c \<noteq> newline) (pending r))\<rparr>"
    have rb: "ReadBytes r = (?line, None, ?r')"
      using True by (simp add: ReadBytes_def)
    show ?thesis
    proof (cases "oa_handleLine uni u cb ?line acc tr")
      case (Continue acc' tr')
      have "oa_loop uni u cb ?r' acc' tr' =
            run_lines (oa_handleLine uni u cb) cb (complete_lines [] (pending ?r')) (fault ?r') acc' tr'"
        using "1.IH" [OF rb [symmetric] refl refl Continue] .
      then show ?thesis
        using True Continue rb
        by (subst oa_loop.simps) (simp add: complete_lines_nl)
    next
      case (Stop res)
      then show ?thesis
        using True rb by (subst oa_loop.simps) (simp add: complete_lines_nl)
    qed
  qed
qed

lemma an_loop_run:
  "an_loop uni u cb r acc tr =
     run_lines (an_handleLine uni u cb) cb (complete_lines [] (pending r)) (fault r) acc tr"
proof (induction uni u cb r acc tr rule: an_loop.induct)
  case (1 uni u cb r acc tr)
  show ?case
  proof (cases "newline \<in> set (pending r)")
    case False
    then show ?thesis
      by (subst an_loop.simps) (simp add: ReadBytes_def complete_lines_none)
  next
    case True
    let ?line = "takeWhile (\<lambda>c. c \<noteq> newline) (pending r) @ [newline]"
    let ?r' = "r\<lparr>pending := tl (dropWhile (\<lambda>c. c \<noteq> newline) (pending r))\<rparr>"
    have rb: "ReadBytes r = (?line, None, ?r')"
      using True by (simp add: ReadBytes_def)
    show ?thesis
    proof (cases "an_handleLine uni u cb ?line acc tr")
      case (Continue acc' tr')
      have "an_loop uni u cb ?r' acc' tr' =
            run_lines (an_handleLine uni u cb) cb (complete_lines [] (pending ?r')) (fault ?r') acc' tr'"
        using "1.IH" [OF rb [symmetric] refl refl Continue] .
      then show ?thesis
        using True Continue rb
        by (subst an_loop.simps) (simp add: complete_lines_nl)
    next
      case (Stop res)
      then show ?thesis
        using True rb by (subst an_loop.simps) (simp add: complete_lines_nl)
    qed
  qed
qed


lemma call_OnFinish_cases:
  "call_OnFinish cb m tr = (if has_OnFinish cb then (tr @ [CallOnFinish m], Returns ()) else (tr, Panics))"
  by (auto simp: call_OnFinish_def has_OnFinish_def split: option.splits)

lemma call_OnError_cases:
  "call_OnError cb e tr = (if has_OnError cb then (tr @ [CallOnError e], Returns ()) else (tr, Panics))"
  by (auto simp: call_OnError_def has_OnError_def split: option.splits)

lemma oa_handleLine_payload:
  "oa_handleLine uni u cb l acc tr =
     (case payload_of uni l of
        None \<Rightarrow> Continue acc tr
      | Some p \<Rightarrow>
          if p = ''[DONE]'' then Stop (call_OnFinish cb acc tr)
          else (case u p of
                  Inl e \<Rightarrow> if has_OnError cb then Continue acc (tr @ [CallOnError (ErrParseJSON e)])
                           else Stop (tr, Panics)
                | Inr ev \<Rightarrow>
                    if Choices ev \<noteq> [] \<and> Content (Delta (Choices ev ! 0)) \<noteq> []
                    then Continue (acc @ Content (Delta (Choices ev ! 0)))
                           (if has_OnContent cb
                            then tr @ [CallOnContent (Content (Delta (Choices ev ! 0)))] else tr)
                    else Continue acc tr))"
  by (auto simp: oa_handleLine_def payload_of_def Let_def HasPrefix_def call_OnError_cases
           split: sum.splits)

lemma an_handleLine_payload:
  "an_handleLine uni u cb l acc tr =
     (case payload_of uni l of
        None \<Rightarrow> Continue acc tr
      | Some p \<Rightarrow>
          (case u p of
             Inl e \<Rightarrow> if has_OnError cb then Continue acc (tr @ [CallOnError (ErrParseJSON e)])
                      else Stop (tr, Panics)
           | Inr ev \<Rightarrow>
               if Type ev = Type_Delta then
                 (case EvDelta ev of
                    None \<Rightarrow> Continue acc tr
                  | Some d \<Rightarrow>
                      if Text d \<noteq> [] \<and> has_OnContent cb
                      then Continue (acc @ Text d) (tr @ [CallOnContent (Text d)])
                      else Continue acc tr)
               else if Type ev = Type_Finish \<and> has_OnFinish cb
               then Stop (tr @ [CallOnFinish acc], Returns ())
               else Continue acc tr))"
  by (auto simp: an_handleLine_def payload_of_def Let_def HasPrefix_def call_OnError_cases
           split: sum.splits option.splits)





lemma oa_handle_silent:
  "oa_silent uni u l \<Longrightarrow> oa_handleLine uni u cb l acc tr = Continue acc tr"
  by (auto simp: oa_silent_def oa_handleLine_payload split: option.splits sum.splits)

lemma oa_handle_delta:
  "oa_delta_line uni u l a \<Longrightarrow>
   oa_handleLine uni u cb l acc tr =
     Continue (acc @ a) (if has_OnContent cb then tr @ [CallOnContent a] else tr)"
  by (auto simp: oa_delta_line_def oa_handleLine_payload split: option.splits sum.splits)

lemma oa_handle_malformed:
  "oa_malformed_line uni u l e \<Longrightarrow> has_OnError cb \<Longrightarrow>
   oa_handleLine uni u cb l acc tr = Continue acc (tr @ [CallOnError (ErrParseJSON e)])"
  by (auto simp: oa_malformed_line_def oa_handleLine_payload split: option.splits sum.splits)

lemma an_handle_silent:
  "an_silent uni u l \<Longrightarrow> an_handleLine uni u cb l acc tr = Continue acc tr"
  by (auto simp: an_silent_def an_handleLine_payload split: option.splits sum.splits if_splits)

lemma an_handle_delta:
  "an_delta_line uni u l a \<Longrightarrow> has_OnContent cb \<Longrightarrow>
   an_handleLine uni u cb l acc tr = Continue (acc @ a) (tr @ [CallOnContent a])"
  by (auto simp: an_delta_line_def an_handleLine_payload split: option.splits sum.splits)

lemma an_handle_malformed:
  "an_malformed_line uni u l e \<Longrightarrow> has_OnError cb \<Longrightarrow>
   an_handleLine uni u cb l acc tr = Continue acc (tr @ [CallOnError (ErrParseJSON e)])"
  by (auto simp: an_malformed_line_def an_handleLine_payload split: option.splits sum.splits)



lemma oa_run_kinds:
  assumes "list_all2 (oa_line_is uni u) pre ks"
    and "has_OnError cb \<or> list_all (\<lambda>k. \<not> is_malformed k) ks"
  shows "run_lines (oa_handleLine uni u cb) cb (pre @ ls) flt acc tr
           = run_lines (oa_handleLine uni u cb) cb ls flt (acc @ concat (texts_of ks))
               (tr @ calls_of (has_OnContent cb) ks)"
  using assms
proof (induction arbitrary: acc tr rule: list_all2_induct)
  case Nil
  show ?case by simp
next
  case (Cons l pre k ks)
  have rest: "has_OnError cb \<or> list_all (\<lambda>k. \<not> is_malformed k) ks"
    using Cons.prems by auto
  show ?case
  proof (cases k)
    case Silent
    with Cons.hyps(1) have "oa_handleLine uni u cb l acc tr = Continue acc tr"
      by (simp add: oa_line_is_def oa_handle_silent)
    with Silent Cons.IH [OF rest] show ?thesis by simp
  next
    case (Fragment a)
    with Cons.hyps(1) have "oa_handleLine uni u cb l acc tr
        = Continue (acc @ a) (if has_OnContent cb then tr @ [CallOnContent a] else tr)"
      using oa_handle_delta [of uni u l a cb acc tr] by (simp add: oa_line_is_def)
    with Fragment Cons.IH [OF rest] show ?thesis by simp
  next
    case (Malformed e)
    with Cons.prems have err: "has_OnError cb" by auto
    with Malformed Cons.hyps(1) have "oa_handleLine uni u cb l acc tr
        = Continue acc (tr @ [CallOnError (ErrParseJSON e)])"
      using oa_handle_malformed [of uni u l e cb acc tr] by (simp add: oa_line_is_def)
    with Malformed Cons.IH [OF rest] show ?thesis by simp
  qed
qed

lemma an_run_kinds:
  assumes "list_all2 (an_line_is uni u) pre ks"
    and "has_OnError cb \<or> list_all (\<lambda>k. \<not> is_malformed k) ks"
    and "has_OnContent cb"
  shows "run_lines (an_handleLine uni u cb) cb (pre @ ls) flt acc tr
           = run_lines (an_handleLine uni u cb) cb ls flt (acc @ concat (texts_of ks))
               (tr @ calls_of True ks)"
  using assms
proof (induction arbitrary: acc tr rule: list_all2_induct)
  case Nil
  show ?case by simp
next
  case (Cons l pre k ks)
  have rest: "has_OnError cb \<or> list_all (\<lambda>k. \<not> is_malformed k) ks"
    using Cons.prems by auto
  note ih = Cons.IH [OF rest Cons.prems(2)]
  show ?case
  proof (cases k)
    case Silent
    with Cons.hyps(1) have "an_handleLine uni u cb l acc tr = Continue acc tr"
      by (simp add: an_line_is_def an_handle_silent)
    with Silent ih show ?thesis by simp
  next
    case (Fragment a)
    with Cons.hyps(1) Cons.prems(2) have "an_handleLine uni u cb l acc tr
        = Continue (acc @ a) (tr @ [CallOnContent a])"
      using an_handle_delta [of uni u l a cb acc tr] by (simp add: an_line_is_def)
    with Fragment ih show ?thesis by simp
  next
    case (Malformed e)
    with Cons.prems have err: "has_OnError cb" by auto
    with Malformed Cons.hyps(1) have "an_handleLine uni u cb l acc tr
        = Continue acc (tr @ [CallOnError (ErrParseJSON e)])"
      using an_handle_malformed [of uni u l e cb acc tr] by (simp add: an_line_is_def)
    with Malformed ih show ?thesis by simp
  qed
qed

lemma calls_of_wellformed:
  "list_all (\<lambda>k. \<not> is_malformed k) ks \<Longrightarrow> calls_of True ks = map CallOnContent (texts_of ks)"
  by (induction ks rule: texts_of.induct) auto

lemma contents_map_CallOnContent: "contents (map CallOnContent fs) = fs"
  by (induction fs) auto

subsection \<open>Completion\<close>

text \<open>
  Claim C1, as the code has it. For a 200 response and a callback set with an
  \<^verbatim>\<open>OnContent\<close> and an \<^verbatim>\<open>OnFinish\<close> slot, take a well-formed stream: complete lines
  \<open>pre\<close> that are content deltas or carry nothing (their kinds \<open>ks\<close>, none malformed),
  then a terminator line \<open>d\<close> (\<^verbatim>\<open>data: [DONE]\<close> for Shape A, a \<^verbatim>\<open>message_stop\<close> event
  for Shape B), then anything. \<^verbatim>\<open>processStream\<close> returns after exactly these calls:
  \<^verbatim>\<open>OnContent\<close> with each fragment of \<open>pre\<close>, in order, and one final \<^verbatim>\<open>OnFinish\<close> whose
  argument is the concatenation, in order, of the \<^verbatim>\<open>OnContent\<close> arguments. Both
  providers.
\<close>

theorem finish_carries_delivered_text:
  assumes "StatusCode resp = StatusOK" and "has_OnContent cb" and "has_OnFinish cb"
  shows "(complete_lines [] (pending (RespBody resp)) = pre @ d # rest
          \<and> list_all2 (oa_line_is uni u) pre ks \<and> list_all (\<lambda>k. \<not> is_malformed k) ks
          \<and> oa_is_done uni d
          \<longrightarrow> (\<exists>es. es = map CallOnContent (texts_of ks)
                 \<and> oa_processStream uni u resp cb ([] :: 'c effect list)
                    = (es @ [CallOnFinish (concat (contents es))], Returns ())))
       \<and> (complete_lines [] (pending (RespBody resp)) = pre @ d # rest
          \<and> list_all2 (an_line_is uni u') pre ks \<and> list_all (\<lambda>k. \<not> is_malformed k) ks
          \<and> an_is_stop uni u' d
          \<longrightarrow> (\<exists>es. es = map CallOnContent (texts_of ks)
                 \<and> an_processStream uni u' resp cb ([] :: 'c effect list)
                    = (es @ [CallOnFinish (concat (contents es))], Returns ())))"
proof (intro conjI impI)
  assume h: "complete_lines [] (pending (RespBody resp)) = pre @ d # rest
          \<and> list_all2 (oa_line_is uni u) pre ks \<and> list_all (\<lambda>k. \<not> is_malformed k) ks
          \<and> oa_is_done uni d"
  then have stop: "oa_handleLine uni u cb d acc tr = Stop (tr @ [CallOnFinish acc], Returns ())"
    for acc and tr :: "'c effect list"
    using assms by (simp add: oa_is_done_def oa_handleLine_payload call_OnFinish_cases)
  have "oa_processStream uni u resp cb ([] :: 'c effect list)
        = (calls_of True ks @ [CallOnFinish (concat (texts_of ks))], Returns ())"
    using h assms oa_run_kinds [of uni u pre ks cb "d # rest" "fault (RespBody resp)" "[]"
        "[] :: 'c effect list"]
    by (simp add: oa_processStream_def oa_loop_run stop)
  with h show "\<exists>es. es = map CallOnContent (texts_of ks)
                 \<and> oa_processStream uni u resp cb ([] :: 'c effect list)
                    = (es @ [CallOnFinish (concat (contents es))], Returns ())"
    by (simp add: calls_of_wellformed contents_map_CallOnContent)
next
  assume h: "complete_lines [] (pending (RespBody resp)) = pre @ d # rest
          \<and> list_all2 (an_line_is uni u') pre ks \<and> list_all (\<lambda>k. \<not> is_malformed k) ks
          \<and> an_is_stop uni u' d"
  then have stop: "an_handleLine uni u' cb d acc tr = Stop (tr @ [CallOnFinish acc], Returns ())"
    for acc and tr :: "'c effect list"
    using assms
    by (cases "payload_of uni d"; cases "u' (the (payload_of uni d))")
       (auto simp: an_is_stop_def an_handleLine_payload Type_Finish_def Type_Delta_def)
  have "an_processStream uni u' resp cb ([] :: 'c effect list)
        = (calls_of True ks @ [CallOnFinish (concat (texts_of ks))], Returns ())"
    using h assms an_run_kinds [of uni u' pre ks cb "d # rest" "fault (RespBody resp)" "[]"
        "[] :: 'c effect list"]
    by (simp add: an_processStream_def an_loop_run stop)
  with h show "\<exists>es. es = map CallOnContent (texts_of ks)
                 \<and> an_processStream uni u' resp cb ([] :: 'c effect list)
                    = (es @ [CallOnFinish (concat (contents es))], Returns ())"
    by (simp add: calls_of_wellformed contents_map_CallOnContent)
qed

theorem finish_carries_delivered_text_witness:
  "StatusCode (ok_response oa_stream_Hi_done) = StatusOK
   \<and> StatusCode (ok_response an_stream_Hi_there_stop) = StatusOK
   \<and> has_OnContent cb_all \<and> has_OnFinish cb_all
   \<and> complete_lines [] (pending (RespBody (ok_response oa_stream_Hi_done)))
       = [data_line oa_payload_Hi] @ data_line ''[DONE]'' # []
   \<and> list_all2 (oa_line_is id oa_sample_unmarshal) [data_line oa_payload_Hi] [Fragment ''Hi'']
   \<and> list_all (\<lambda>k. \<not> is_malformed k) [Fragment ''Hi'']
   \<and> oa_is_done id (data_line ''[DONE]'')
   \<and> oa_processStream id oa_sample_unmarshal (ok_response oa_stream_Hi_done) cb_all
        ([] :: unit effect list)
       = ([CallOnContent ''Hi'', CallOnFinish ''Hi''], Returns ())
   \<and> complete_lines [] (pending (RespBody (ok_response an_stream_Hi_there_stop)))
       = [data_line an_payload_Hi, data_line an_payload_there] @ data_line an_payload_stop # []
   \<and> list_all2 (an_line_is id an_sample_unmarshal)
        [data_line an_payload_Hi, data_line an_payload_there] [Fragment ''Hi'', Fragment '' there'']
   \<and> list_all (\<lambda>k. \<not> is_malformed k) [Fragment ''Hi'', Fragment '' there'']
   \<and> an_is_stop id an_sample_unmarshal (data_line an_payload_stop)
   \<and> an_processStream id an_sample_unmarshal (ok_response an_stream_Hi_there_stop) cb_all
        ([] :: unit effect list)
       = ([CallOnContent ''Hi'', CallOnContent '' there'', CallOnFinish ''Hi there''], Returns ())"
proof -
  have a: "StatusCode (ok_response oa_stream_Hi_done) = StatusOK"
    and a': "StatusCode (ok_response an_stream_Hi_there_stop) = StatusOK"
    and c: "has_OnContent cb_all" and f: "has_OnFinish cb_all"
    by code_simp+
  have ho: "complete_lines [] (pending (RespBody (ok_response oa_stream_Hi_done)))
       = [data_line oa_payload_Hi] @ data_line ''[DONE]'' # []
   \<and> list_all2 (oa_line_is id oa_sample_unmarshal) [data_line oa_payload_Hi] [Fragment ''Hi'']
   \<and> list_all (\<lambda>k. \<not> is_malformed k) [Fragment ''Hi'']
   \<and> oa_is_done id (data_line ''[DONE]'')"
    by code_simp
  have ha: "complete_lines [] (pending (RespBody (ok_response an_stream_Hi_there_stop)))
       = [data_line an_payload_Hi, data_line an_payload_there] @ data_line an_payload_stop # []
   \<and> list_all2 (an_line_is id an_sample_unmarshal)
        [data_line an_payload_Hi, data_line an_payload_there] [Fragment ''Hi'', Fragment '' there'']
   \<and> list_all (\<lambda>k. \<not> is_malformed k) [Fragment ''Hi'', Fragment '' there'']
   \<and> an_is_stop id an_sample_unmarshal (data_line an_payload_stop)"
    by code_simp
  have ro: "oa_processStream id oa_sample_unmarshal (ok_response oa_stream_Hi_done) cb_all
        ([] :: unit effect list)
       = ([CallOnContent ''Hi'', CallOnFinish ''Hi''], Returns ())"
    using ho finish_carries_delivered_text [OF a c f,
        where pre = "[data_line oa_payload_Hi]" and d = "data_line ''[DONE]''" and rest = "[]"
          and uni = id and u = oa_sample_unmarshal and ks = "[Fragment ''Hi'']"
          and u' = an_sample_unmarshal and 'c = unit]
    by simp
  have ra: "an_processStream id an_sample_unmarshal (ok_response an_stream_Hi_there_stop) cb_all
        ([] :: unit effect list)
       = ([CallOnContent ''Hi'', CallOnContent '' there'', CallOnFinish ''Hi there''], Returns ())"
    using ha finish_carries_delivered_text [OF a' c f,
        where pre = "[data_line an_payload_Hi, data_line an_payload_there]"
          and d = "data_line an_payload_stop" and rest = "[]"
          and uni = id and u = oa_sample_unmarshal
          and ks = "[Fragment ''Hi'', Fragment '' there'']" and u' = an_sample_unmarshal and 'c = unit]
    by simp
  from a a' c f ho ha ro ra show ?thesis
    by blast
qed

text \<open>
  Claim C1 as stated, for every callback set, fails for Shape A: with the
  \<^verbatim>\<open>OnContent\<close> slot nil, \<^verbatim>\<open>openai.processStream\<close> still appends every fragment to
  \<^verbatim>\<open>finalMessage\<close>, so on the well-formed stream of one \<^verbatim>\<open>Hi\<close> fragment and
  \<^verbatim>\<open>data: [DONE]\<close> the final \<^verbatim>\<open>OnFinish\<close> receives \<^verbatim>\<open>Hi\<close> while no \<^verbatim>\<open>OnContent\<close> call
  was made (the concatenation of their arguments is empty).
\<close>

theorem finish_text_not_delivered_counterexample:
  "has_OnFinish cb_no_OnContent
   \<and> list_all (oa_parses id oa_sample_unmarshal) (complete_lines [] oa_stream_Hi_done)
   \<and> list_ex (oa_is_done id) (complete_lines [] oa_stream_Hi_done)
   \<and> oa_processStream id oa_sample_unmarshal (ok_response oa_stream_Hi_done) cb_no_OnContent
        ([] :: unit effect list)
       = ([CallOnFinish ''Hi''], Returns ())
   \<and> concat (contents (fst (oa_processStream id oa_sample_unmarshal
         (ok_response oa_stream_Hi_done) cb_no_OnContent ([] :: unit effect list)))) = []"
  by code_simp

text \<open>
  Claim C4. Take a 200 response whose source ends in EOF and whose complete lines are
  content deltas, malformed payloads or lines that carry nothing (their kinds \<open>ks\<close>):
  no terminator was seen. With an \<^verbatim>\<open>OnFinish\<close> slot, and an \<^verbatim>\<open>OnError\<close> slot unless no
  payload is malformed, \<^verbatim>\<open>processStream\<close> returns after exactly these calls: those the
  lines ask for (\<^verbatim>\<open>OnContent\<close> per fragment, \<^verbatim>\<open>OnError\<close> per parse failure) and one
  final \<^verbatim>\<open>OnFinish\<close> with the concatenation of all fragments of the stream. No
  \<^verbatim>\<open>OnError\<close> is made for the end of input. For Shape A this holds with or without an
  \<^verbatim>\<open>OnContent\<close> slot (without it the \<^verbatim>\<open>OnContent\<close> calls are left out); for Shape B
  it is stated for callback sets that have the slot.
\<close>

theorem eof_is_success:
  assumes "StatusCode resp = StatusOK" and "fault (RespBody resp) = EOF"
    and "has_OnFinish cb"
  shows "(list_all2 (oa_line_is uni u) (complete_lines [] (pending (RespBody resp))) ks
          \<and> (has_OnError cb \<or> list_all (\<lambda>k. \<not> is_malformed k) ks)
          \<longrightarrow> oa_processStream uni u resp cb (tr :: 'c effect list)
                = (tr @ calls_of (has_OnContent cb) ks @ [CallOnFinish (concat (texts_of ks))],
                   Returns ()))
       \<and> (list_all2 (an_line_is uni u') (complete_lines [] (pending (RespBody resp))) ks
          \<and> (has_OnError cb \<or> list_all (\<lambda>k. \<not> is_malformed k) ks)
          \<and> has_OnContent cb
          \<longrightarrow> an_processStream uni u' resp cb tr
                = (tr @ calls_of True ks @ [CallOnFinish (concat (texts_of ks))],
                   Returns ()))"
proof (intro conjI impI)
  assume h: "list_all2 (oa_line_is uni u) (complete_lines [] (pending (RespBody resp))) ks
          \<and> (has_OnError cb \<or> list_all (\<lambda>k. \<not> is_malformed k) ks)"
  show "oa_processStream uni u resp cb tr
          = (tr @ calls_of (has_OnContent cb) ks @ [CallOnFinish (concat (texts_of ks))],
             Returns ())"
    using h assms
      oa_run_kinds [of uni u "complete_lines [] (pending (RespBody resp))" ks cb "[]" EOF "[]" tr]
    by (simp add: oa_processStream_def oa_loop_run call_OnFinish_cases)
next
  assume h: "list_all2 (an_line_is uni u') (complete_lines [] (pending (RespBody resp))) ks
          \<and> (has_OnError cb \<or> list_all (\<lambda>k. \<not> is_malformed k) ks)
          \<and> has_OnContent cb"
  show "an_processStream uni u' resp cb tr
          = (tr @ calls_of True ks @ [CallOnFinish (concat (texts_of ks))], Returns ())"
    using h assms
      an_run_kinds [of uni u' "complete_lines [] (pending (RespBody resp))" ks cb "[]" EOF "[]" tr]
    by (simp add: an_processStream_def an_loop_run call_OnFinish_cases)
qed

theorem eof_is_success_witness:
  "StatusCode (ok_response oa_stream_Hi_there) = StatusOK
   \<and> fault (RespBody (ok_response oa_stream_Hi_there)) = EOF
   \<and> StatusCode (ok_response an_stream_Hi_there) = StatusOK
   \<and> fault (RespBody (ok_response an_stream_Hi_there)) = EOF
   \<and> has_OnFinish cb_all \<and> has_OnError cb_all \<and> has_OnContent cb_all
   \<and> list_all2 (oa_line_is id oa_sample_unmarshal)
        (complete_lines [] (pending (RespBody (ok_response oa_stream_Hi_there))))
        [Fragment ''Hi'', Fragment '' there'']
   \<and> oa_processStream id oa_sample_unmarshal (ok_response oa_stream_Hi_there) cb_all
        ([] :: unit effect list)
       = ([CallOnContent ''Hi'', CallOnContent '' there'', CallOnFinish ''Hi there''], Returns ())
   \<and> list_all2 (an_line_is id an_sample_unmarshal)
        (complete_lines [] (pending (RespBody (ok_response an_stream_Hi_there))))
        [Fragment ''Hi'', Fragment '' there'']
   \<and> an_processStream id an_sample_unmarshal (ok_response an_stream_Hi_there) cb_all
        ([] :: unit effect list)
       = ([CallOnContent ''Hi'', CallOnContent '' there'', CallOnFinish ''Hi there''], Returns ())"
proof -
  have a: "StatusCode (ok_response oa_stream_Hi_there) = StatusOK"
    and b: "fault (RespBody (ok_response oa_stream_Hi_there)) = EOF"
    and a': "StatusCode (ok_response an_stream_Hi_there) = StatusOK"
    and b': "fault (RespBody (ok_response an_stream_Hi_there)) = EOF"
    and f: "has_OnFinish cb_all" and e: "has_OnError cb_all" and c: "has_OnContent cb_all"
    by code_simp+
  have ho: "list_all2 (oa_line_is id oa_sample_unmarshal)
        (complete_lines [] (pending (RespBody (ok_response oa_stream_Hi_there))))
        [Fragment ''Hi'', Fragment '' there'']"
    by code_simp
  have ha: "list_all2 (an_line_is id an_sample_unmarshal)
        (complete_lines [] (pending (RespBody (ok_response an_stream_Hi_there))))
        [Fragment ''Hi'', Fragment '' there'']"
    by code_simp
  have ro: "oa_processStream id oa_sample_unmarshal (ok_response oa_stream_Hi_there) cb_all
        ([] :: unit effect list)
       = ([CallOnContent ''Hi'', CallOnContent '' there'', CallOnFinish ''Hi there''], Returns ())"
    using ho e c eof_is_success [OF a b f,
        where uni = id and u = oa_sample_unmarshal and u' = an_sample_unmarshal
          and ks = "[Fragment ''Hi'', Fragment '' there'']" and tr = "[] :: unit effect list"]
    by simp
  have ra: "an_processStream id an_sample_unmarshal (ok_response an_stream_Hi_there) cb_all
        ([] :: unit effect list)
       = ([CallOnContent ''Hi'', CallOnContent '' there'', CallOnFinish ''Hi there''], Returns ())"
    using ha e c eof_is_success [OF a' b' f,
        where uni = id and u = oa_sample_unmarshal and u' = an_sample_unmarshal
          and ks = "[Fragment ''Hi'', Fragment '' there'']" and tr = "[] :: unit effect list"]
    by simp
  from a b a' b' f e c ho ha ro ra show ?thesis
    by blast
qed

text \<open>
  Claim C2 does not hold of \<^verbatim>\<open>anthropic.processStream\<close> for a callback set whose
  \<^verbatim>\<open>OnFinish\<close> slot is nil: the \<^verbatim>\<open>return\<close> sits inside the nil guard, so the
  \<^verbatim>\<open>message_stop\<close> event is passed over and reading goes on. Here the line after the
  terminator is still decoded and delivered to \<^verbatim>\<open>OnContent\<close>, and the unguarded
  \<^verbatim>\<open>cb.OnFinish\<close> at end of input then panics; on a stream that ends with the
  terminator the loop reads once more, meets the end of input and panics there.
\<close>

theorem message_stop_skipped_without_OnFinish:
  "an_processStream id an_sample_unmarshal
     (ok_response (data_line an_payload_stop @ data_line an_payload_Hi)) cb_no_OnFinish
     ([] :: unit effect list)
   = ([CallOnContent ''Hi''], Panics)
   \<and> an_processStream id an_sample_unmarshal
       (ok_response (data_line an_payload_stop)) cb_no_OnFinish ([] :: unit effect list)
     = ([], Panics)"
  by code_simp

text \<open>
  Claim C6 does not hold of \<^verbatim>\<open>anthropic.processStream\<close> for a callback set whose
  \<^verbatim>\<open>OnContent\<close> slot is nil: the append to \<^verbatim>\<open>finalMessage\<close> sits inside the guard of
  the \<^verbatim>\<open>OnContent\<close> call, so the fragment \<^verbatim>\<open>Hi\<close> is lost and \<^verbatim>\<open>OnFinish\<close> receives the
  empty string. \<^verbatim>\<open>openai.processStream\<close> appends outside the guard: on the same
  conversation it passes \<^verbatim>\<open>Hi\<close> to \<^verbatim>\<open>OnFinish\<close>.
\<close>

theorem anthropic_accumulator_needs_OnContent:
  "an_processStream id an_sample_unmarshal
     (ok_response (data_line an_payload_Hi @ data_line an_payload_stop)) cb_no_OnContent
     ([] :: unit effect list)
   = ([CallOnFinish []], Returns ())
   \<and> oa_processStream id oa_sample_unmarshal
       (ok_response (data_line oa_payload_Hi @ data_line ''[DONE]'')) cb_no_OnContent
       ([] :: unit effect list)
     = ([CallOnFinish ''Hi''], Returns ())"
  by code_simp

subsection \<open>Malformed payloads\<close>



subsection \<open>Early failures\<close>

text \<open>
  Claim C7. A \<^verbatim>\<open>StreamChat\<close> call with an empty API key, made with a callback set that
  has an \<^verbatim>\<open>OnError\<close> slot, calls \<^verbatim>\<open>OnError\<close> exactly once (with the error
  \<^verbatim>\<open>invalid apiKey\<close>) and returns: the trace holds that single call, so there is no
  network exchange (\<open>HttpDo\<close>), no \<^verbatim>\<open>OnContent\<close> and no \<^verbatim>\<open>OnFinish\<close>, whatever the
  collaborators, the context and the messages are. Both providers.
\<close>

theorem empty_credential_one_error:
  assumes "has_OnError cb" and "oa_ApiKey s = []" and "an_ApiKey s' = []"
  shows "oa_StreamChat uni u w s ctx msgs cb = ([CallOnError (ErrNew ''invalid apiKey'')], Returns ())
       \<and> an_StreamChat uni u' w s' ctx msgs cb = ([CallOnError (ErrNew ''invalid apiKey'')], Returns ())"
  using assms by (simp add: oa_StreamChat_def an_StreamChat_def)

theorem empty_credential_one_error_witness:
  "has_OnError cb_all
   \<and> oa_StreamChat id oa_sample_unmarshal (answering (ok_response []))
        \<lparr>oa_ApiKey = [], oa_Model = []\<rparr> () [] cb_all
       = ([CallOnError (ErrNew ''invalid apiKey'')], Returns ())
   \<and> an_StreamChat id an_sample_unmarshal (answering (ok_response []))
        \<lparr>an_ApiKey = [], an_Model = []\<rparr> () [] cb_all
       = ([CallOnError (ErrNew ''invalid apiKey'')], Returns ())"
proof -
  have h: "has_OnError cb_all"
    by (simp add: has_OnError_def cb_all_def)
  show ?thesis
    using h empty_credential_one_error [OF h, of "\<lparr>oa_ApiKey = [], oa_Model = []\<rparr>"
        "\<lparr>an_ApiKey = [], an_Model = []\<rparr>" id oa_sample_unmarshal
        "answering (ok_response [])" "()" "[]" an_sample_unmarshal]
    by simp
qed

text \<open>
  Without an \<^verbatim>\<open>OnError\<close> slot (or with a nil callback pointer) the guard of
  \<^verbatim>\<open>StreamChat\<close> skips the call: nothing at all happens.
\<close>

lemma empty_credential_no_slot:
  assumes "\<not> has_OnError cb" and "oa_ApiKey s = []" and "an_ApiKey s' = []"
  shows "oa_StreamChat uni u w s ctx msgs cb = ([], Returns ())
       \<and> an_StreamChat uni u' w s' ctx msgs cb = ([], Returns ())"
  using assms by (simp add: oa_StreamChat_def an_StreamChat_def)

text \<open>
  Claim C8. For a response whose status is not 200 and a callback set with an
  \<^verbatim>\<open>OnError\<close> slot, \<^verbatim>\<open>processStream\<close> makes exactly one call, to \<^verbatim>\<open>OnError\<close>, and returns.
  When the body can be read to its end the error carries the status code and the
  whole body; when reading the body fails it is the distinct read-failure error, which
  carries the status code and the cause (and is not the JSON-parse error). The decoder
  \<open>u\<close> plays no part, and no \<^verbatim>\<open>OnFinish\<close> follows. Both providers.
\<close>

theorem non200_single_error:
  assumes "StatusCode resp \<noteq> StatusOK" and "has_OnError cb"
  shows "oa_processStream uni u resp cb tr =
           (tr @ [CallOnError
                    (if fault (RespBody resp) = EOF
                     then ErrNon200Body (StatusCode resp) (pending (RespBody resp))
                     else ErrNon200ReadBody (StatusCode resp) (fault (RespBody resp)))],
            Returns ())
       \<and> an_processStream uni u' resp cb tr =
           (tr @ [CallOnError
                    (if fault (RespBody resp) = EOF
                     then ErrNon200Body (StatusCode resp) (pending (RespBody resp))
                     else ErrNon200ReadBody (StatusCode resp) (fault (RespBody resp)))],
            Returns ())"
  using assms
  by (simp add: oa_processStream_def an_processStream_def ReadAll_def call_OnError_cases)

theorem non200_single_error_witness:
  "StatusCode \<lparr>StatusCode = 500, RespBody = \<lparr>pending = [], fault = ErrNew ''boom''\<rparr>\<rparr> \<noteq> StatusOK
   \<and> has_OnError cb_only_OnError
   \<and> oa_processStream id oa_sample_unmarshal
        \<lparr>StatusCode = 500, RespBody = \<lparr>pending = [], fault = ErrNew ''boom''\<rparr>\<rparr>
        cb_only_OnError ([] :: unit effect list)
       = ([CallOnError (ErrNon200ReadBody 500 (ErrNew ''boom''))], Returns ())
   \<and> an_processStream id an_sample_unmarshal
        \<lparr>StatusCode = 500, RespBody = \<lparr>pending = [], fault = ErrNew ''boom''\<rparr>\<rparr>
        cb_only_OnError ([] :: unit effect list)
       = ([CallOnError (ErrNon200ReadBody 500 (ErrNew ''boom''))], Returns ())"
proof -
  let ?resp = "\<lparr>StatusCode = 500, RespBody = \<lparr>pending = [], fault = ErrNew ''boom''\<rparr>\<rparr>"
  have h1: "StatusCode ?resp \<noteq> StatusOK"
    by (simp add: StatusOK_def)
  have h2: "has_OnError cb_only_OnError"
    by (simp add: has_OnError_def cb_only_OnError_def)
  show ?thesis
    using h1 h2
      non200_single_error [OF h1 h2, of id oa_sample_unmarshal "[] :: unit effect list"
        an_sample_unmarshal]
    by simp
qed

text \<open>
  Claim C5 does not hold: \<^verbatim>\<open>processStream\<close> calls \<^verbatim>\<open>cb.OnFinish\<close> and \<^verbatim>\<open>cb.OnError\<close>
  without the nil guard that \<^verbatim>\<open>StreamChat\<close> and the \<^verbatim>\<open>OnContent\<close> call have, and nothing
  recovers the panic. With only \<^verbatim>\<open>OnError\<close> supplied, a 200 response that ends the
  stream makes \<^verbatim>\<open>openai\<close>'s \<^verbatim>\<open>StreamChat\<close> panic at \<^verbatim>\<open>cb.OnFinish\<close>; with \<^verbatim>\<open>OnError\<close>
  left nil, a 500 response makes \<^verbatim>\<open>anthropic\<close>'s \<^verbatim>\<open>StreamChat\<close> panic at \<^verbatim>\<open>cb.OnError\<close>.
\<close>

theorem absent_slot_panics:
  "snd (oa_StreamChat id oa_sample_unmarshal (answering (ok_response (data_line ''[DONE]'')))
          \<lparr>oa_ApiKey = ''k'', oa_Model = []\<rparr> () [] cb_only_OnError) = Panics
   \<and> snd (an_StreamChat id an_sample_unmarshal
            (answering \<lparr>StatusCode = 500, RespBody = \<lparr>pending = ''bad'', fault = EOF\<rparr>\<rparr>)
            \<lparr>an_ApiKey = ''k'', an_Model = []\<rparr> () []
            (Some \<lparr>OnContent = True, OnFinish = True, OnError = False\<rparr>)) = Panics"
  by code_simp

subsection \<open>What the decoder drops\<close>

lemma complete_lines_tail:
  "newline \<notin> set tail \<Longrightarrow> complete_lines cur (bs @ tail) = complete_lines cur bs"
  by (induction bs arbitrary: cur) (simp_all add: complete_lines_none)

text \<open>
  Claim C9. Bytes after the last newline of the source are discarded: for a 200
  response, appending bytes without a newline (\<open>tail\<close>, the unterminated final line)
  to the body changes neither the calls made nor the outcome, whatever the callback
  set, the decoder and the way the source ends. So a \<^verbatim>\<open>data:\<close> payload on that line
  triggers no \<^verbatim>\<open>OnContent\<close> and adds nothing to what \<^verbatim>\<open>OnFinish\<close> receives. Both
  providers.
\<close>

theorem unterminated_line_discarded:
  assumes "newline \<notin> set tail"
  shows "oa_processStream uni u \<lparr>StatusCode = StatusOK, RespBody = \<lparr>pending = bs @ tail, fault = f\<rparr>\<rparr> cb tr
           = oa_processStream uni u \<lparr>StatusCode = StatusOK, RespBody = \<lparr>pending = bs, fault = f\<rparr>\<rparr> cb tr
       \<and> an_processStream uni u' \<lparr>StatusCode = StatusOK, RespBody = \<lparr>pending = bs @ tail, fault = f\<rparr>\<rparr> cb tr
           = an_processStream uni u' \<lparr>StatusCode = StatusOK, RespBody = \<lparr>pending = bs, fault = f\<rparr>\<rparr> cb tr"
  using assms
  by (simp add: oa_processStream_def an_processStream_def oa_loop_run an_loop_run
        complete_lines_tail)

theorem unterminated_line_discarded_witness:
  "newline \<notin> set (''data: '' @ oa_payload_there)
   \<and> oa_processStream id oa_sample_unmarshal
        \<lparr>StatusCode = StatusOK,
           RespBody = \<lparr>pending = data_line oa_payload_Hi @ (''data: '' @ oa_payload_there),
                       fault = EOF\<rparr>\<rparr>
        cb_all ([] :: unit effect list)
       = ([CallOnContent ''Hi'', CallOnFinish ''Hi''], Returns ())"
proof -
  have h: "newline \<notin> set (''data: '' @ oa_payload_there)"
    by code_simp
  have e: "oa_processStream id oa_sample_unmarshal
             \<lparr>StatusCode = StatusOK,
                RespBody = \<lparr>pending = data_line oa_payload_Hi, fault = EOF\<rparr>\<rparr>
             cb_all ([] :: unit effect list)
           = ([CallOnContent ''Hi'', CallOnFinish ''Hi''], Returns ())"
    by code_simp
  show ?thesis
    using h e
      unterminated_line_discarded [OF h, of id oa_sample_unmarshal "data_line oa_payload_Hi"
        EOF cb_all "[] :: unit effect list" an_sample_unmarshal]
    by simp
qed

lemma first_choice_only_handle:
  "oa_handleLine uni (\<lambda>p. map_sum id first_choice_only (u p)) cb
     = oa_handleLine uni u cb"
proof (intro ext)
  fix l acc and tr :: "'a effect list"
  show "oa_handleLine uni (\<lambda>p. map_sum id first_choice_only (u p)) cb l acc tr
          = oa_handleLine uni u cb l acc tr"
  proof (cases "payload_of uni l")
    case None
    then show ?thesis by (simp add: oa_handleLine_payload)
  next
    case (Some p)
    show ?thesis
    proof (cases "u p")
      case (Inl e)
      with Some show ?thesis by (simp add: oa_handleLine_payload)
    next
      case (Inr ev)
      have "Choices (first_choice_only ev) \<noteq> [] \<longleftrightarrow> Choices ev \<noteq> []"
        by (cases "Choices ev") (simp_all add: first_choice_only_def)
      moreover have "Choices ev \<noteq> [] \<Longrightarrow> Choices (first_choice_only ev) ! 0 = Choices ev ! 0"
        by (cases "Choices ev") (simp_all add: first_choice_only_def)
      ultimately show ?thesis
        using Some Inr by (auto simp: oa_handleLine_payload)
    qed
  qed
qed

text \<open>
  Claim C10. Only the first entry of \<^verbatim>\<open>choices\<close> counts. Cutting every decoded event
  down to its first choice changes nothing that \<^verbatim>\<open>openai.processStream\<close> does; and for
  a line whose payload decodes to an event with choices \<open>c # cs\<close>, what is appended to
  the accumulator and passed to \<^verbatim>\<open>OnContent\<close> is the text of \<open>c\<close>, with no part played
  by \<open>cs\<close>.
\<close>

theorem later_choices_ignored:
  "oa_processStream uni (\<lambda>p. map_sum id first_choice_only (u p)) resp cb tr
     = oa_processStream uni u resp cb tr
   \<and> (payload_of uni l = Some p \<and> p \<noteq> ''[DONE]'' \<and> u p = Inr ev \<and> Choices ev = c # cs \<longrightarrow>
        oa_handleLine uni u cb l acc tr =
          (if Content (Delta c) = [] then Continue acc tr
           else Continue (acc @ Content (Delta c))
                  (if has_OnContent cb then tr @ [CallOnContent (Content (Delta c))] else tr)))"
  by (simp add: oa_processStream_def oa_loop_run first_choice_only_handle oa_handleLine_payload)

theorem later_choices_ignored_witness:
  "payload_of id (data_line oa_payload_two) = Some oa_payload_two
   \<and> oa_payload_two \<noteq> ''[DONE]''
   \<and> oa_sample_unmarshal oa_payload_two = Inr (oa_event [''A'', ''B''])
   \<and> Choices (oa_event [''A'', ''B''])
       = \<lparr>Index = 0, Delta = \<lparr>Role = [], Content = ''A''\<rparr>, FinishReason = None\<rparr>
         # [\<lparr>Index = 0, Delta = \<lparr>Role = [], Content = ''B''\<rparr>, FinishReason = None\<rparr>]
   \<and> oa_handleLine id oa_sample_unmarshal cb_all (data_line oa_payload_two) []
        ([] :: unit effect list)
       = Continue ''A'' [CallOnContent ''A'']
   \<and> oa_processStream id oa_sample_unmarshal
        (ok_response (data_line oa_payload_two @ data_line ''[DONE]'')) cb_all
        ([] :: unit effect list)
       = ([CallOnContent ''A'', CallOnFinish ''A''], Returns ())"
proof -
  let ?c = "\<lparr>Index = 0, Delta = \<lparr>Role = [], Content = ''A''\<rparr>, FinishReason = None\<rparr>"
  let ?cs = "[\<lparr>Index = 0, Delta = \<lparr>Role = [], Content = ''B''\<rparr>, FinishReason = None\<rparr>]"
  have h: "payload_of id (data_line oa_payload_two) = Some oa_payload_two
     \<and> oa_payload_two \<noteq> ''[DONE]''
     \<and> oa_sample_unmarshal oa_payload_two = Inr (oa_event [''A'', ''B''])
     \<and> Choices (oa_event [''A'', ''B'']) = ?c # ?cs"
    by code_simp
  have c: "has_OnContent cb_all"
    by code_simp
  have e: "oa_processStream id oa_sample_unmarshal
             (ok_response (data_line oa_payload_two @ data_line ''[DONE]'')) cb_all
             ([] :: unit effect list)
           = ([CallOnContent ''A'', CallOnFinish ''A''], Returns ())"
    by code_simp
  show ?thesis
    using h c e
      later_choices_ignored [of id oa_sample_unmarshal _ cb_all "[] :: unit effect list"
        "data_line oa_payload_two" oa_payload_two "oa_event [''A'', ''B'']" ?c ?cs "[]"]
    by simp
qed

end
